theory Spec2Isabelle
  imports Main "HOL-Library.Word"
begin

section \<open>A shallow embedding of the rotating file logger (simple\_log.h)\<close>

text \<open>
  The header implements a logger that appends timestamped lines to a live file and rotates
  it through numbered backups. Every function of the header is embedded below under its own
  name; C identifiers that start with an underscore lose it (\<open>_backup_file\<close> is
  \<open>backup_file\<close>), since HOL names start with a letter.

  Conventions of the embedding.
  \<^item> A C string is a \<open>string\<close> (the bytes before the terminating NUL); a pointer that may
    be \<open>NULL\<close> is an \<open>option\<close>, \<open>None\<close> being \<open>NULL\<close>.
  \<^item> A function that writes through a pointer returns the new content beside its C result.
  \<^item> The release configuration is embedded: \<open>_DEBUG\<close> is 0 and \<open>assert\<close> expands to
    nothing, so every guarded early \<open>return -1\<close> is reached.
  \<^item> The platform (C runtime, Win32 file and lock calls) is not part of the header. It is
    modelled by the record \<open>world\<close>: a file system, a clock, and for each call that can fail
    for a reason outside the program a predicate saying whether it does.
  \<^item> \<open>_splitpath\<close> is a parameter of the functions that call it.
  \<^item> \<open>perror\<close> only prints and \<open>errno\<close> is only read to decide whether to print; both are
    left out.
\<close>

subsection \<open>Constants and plain types\<close>

definition MAX_LOG_TEXT :: nat where
  "MAX_LOG_TEXT = 256"

definition MAX_FILE_SIZE :: int where
  "MAX_FILE_SIZE = 1024"

definition MAX_LOG_BACKUP :: int where
  "MAX_LOG_BACKUP = 3"

text \<open>\<open>MAX_PATH\<close> comes from the Windows headers, where it is 260.\<close>

definition MAX_PATH :: nat where
  "MAX_PATH = 260"

text \<open>The \<open>sizeof\<close> of an array \<open>char[MAX_PATH + 1]\<close>.\<close>

definition sizeof_path :: nat where
  "sizeof_path = MAX_PATH + 1"

type_synonym BOOL = int

definition TRUE :: BOOL where
  "TRUE = 1"

definition FALSE :: BOOL where
  "FALSE = 0"

definition EOF :: int where
  "EOF = - 1"

text \<open>
  \<open>LOG_LEVEL\<close> is a C enumeration, hence an integer type: a caller can pass any number.
  The enumerator \<open>INF\<close> is written \<open>INF_level\<close> because \<open>INF\<close> is HOL notation.
\<close>

type_synonym LOG_LEVEL = int

definition ERR :: LOG_LEVEL where
  "ERR = 1"

definition WAR :: LOG_LEVEL where
  "WAR = 2"

definition INF_level :: LOG_LEVEL where
  "INF_level = 3"

definition DBG :: LOG_LEVEL where
  "DBG = 4"

text \<open>
  A critical section, seen from the one thread that runs the calls: never initialised,
  initialised and entered \<open>n\<close> times more than left, or deleted.
\<close>

datatype CRITICAL_SECTION = CS_Garbage | CS_Ready nat | CS_Deleted

record LOG_INFO =
  stCS :: CRITICAL_SECTION
  szLogPath :: string
  bUsed :: BOOL
  nFileSize :: int
  nLogBackup :: int
  szDir :: string
  szFname :: string
  szFext :: string

record SYSTEMTIME =
  wYear :: "16 word"
  wMonth :: "16 word"
  wDayOfWeek :: "16 word"
  wDay :: "16 word"
  wHour :: "16 word"
  wMinute :: "16 word"
  wSecond :: "16 word"
  wMilliseconds :: "16 word"

subsection \<open>The platform\<close>

datatype node = RegularFile string | Directory

record FILE =
  fpath :: string
  fmode :: string

text \<open>
  \<open>stack_garbage\<close> is what an uninitialised local array happens to hold. The \<open>_fails\<close>
  fields say which platform calls fail for outside reasons (permissions, a full disk, a
  sharing violation) while one function of the header runs.
\<close>

record world =
  files :: "string \<rightharpoonup> node"
  clock :: SYSTEMTIME
  stack_garbage :: string
  fopen_fails :: "string \<Rightarrow> string \<Rightarrow> bool"
  fputs_fails :: "FILE \<Rightarrow> bool"
  fclose_fails :: "FILE \<Rightarrow> bool"
  DeleteFile_fails :: "string \<Rightarrow> bool"
  MoveFile_fails :: "string \<Rightarrow> string \<Rightarrow> bool"

text \<open>
  \<open>fopen\<close> with the two modes the header uses. \<open>"rb"\<close> needs an existing regular file;
  \<open>"ab+"\<close> creates an empty file where there is none and refuses a directory.
\<close>

definition fopen :: "string \<Rightarrow> string \<Rightarrow> world \<Rightarrow> FILE option \<times> world" where
  "fopen path mode w =
     (if fopen_fails w path mode then (None, w)
      else if mode = ''rb'' then
        (case files w path of
           Some (RegularFile c) \<Rightarrow> (Some \<lparr>fpath = path, fmode = mode\<rparr>, w)
         | _ \<Rightarrow> (None, w))
      else if mode = ''ab+'' then
        (case files w path of
           Some Directory \<Rightarrow> (None, w)
         | Some (RegularFile c) \<Rightarrow> (Some \<lparr>fpath = path, fmode = mode\<rparr>, w)
         | None \<Rightarrow>
             (Some \<lparr>fpath = path, fmode = mode\<rparr>,
              w\<lparr>files := (files w)(path \<mapsto> RegularFile [])\<rparr>))
      else (None, w))"

text \<open>
  \<open>_filelength(_fileno(fp))\<close>: the length in bytes as a \<open>long\<close>, which has 32 bits on
  Windows; \<open>-1\<close> when the length does not fit or cannot be had.
\<close>

definition LONG_MAX :: int where
  "LONG_MAX = 2147483647"

definition filelength :: "FILE \<Rightarrow> world \<Rightarrow> int" where
  "filelength fp w =
     (case files w (fpath fp) of
        Some (RegularFile c) \<Rightarrow> (if int (length c) \<le> LONG_MAX then int (length c) else - 1)
      | _ \<Rightarrow> - 1)"

definition fputs :: "string \<Rightarrow> FILE \<Rightarrow> world \<Rightarrow> int \<times> world" where
  "fputs s fp w =
     (if fputs_fails w fp then (EOF, w)
      else
        (case files w (fpath fp) of
           Some (RegularFile c) \<Rightarrow> (0, w\<lparr>files := (files w)(fpath fp \<mapsto> RegularFile (c @ s))\<rparr>)
         | _ \<Rightarrow> (EOF, w)))"

definition fclose :: "FILE \<Rightarrow> world \<Rightarrow> int \<times> world" where
  "fclose fp w = (if fclose_fails w fp then (EOF, w) else (0, w))"

definition PathFileExists :: "string \<Rightarrow> world \<Rightarrow> bool" where
  "PathFileExists path w = (files w path \<noteq> None)"

definition PathIsDirectory :: "string \<Rightarrow> world \<Rightarrow> bool" where
  "PathIsDirectory path w = (files w path = Some Directory)"

definition DeleteFile :: "string \<Rightarrow> world \<Rightarrow> BOOL \<times> world" where
  "DeleteFile path w =
     (if DeleteFile_fails w path then (FALSE, w)
      else
        (case files w path of
           Some (RegularFile c) \<Rightarrow> (TRUE, w\<lparr>files := (files w)(path := None)\<rparr>)
         | _ \<Rightarrow> (FALSE, w)))"

text \<open>\<open>MoveFile\<close> fails when the source is missing or the new name is taken.\<close>

definition MoveFile :: "string \<Rightarrow> string \<Rightarrow> world \<Rightarrow> BOOL \<times> world" where
  "MoveFile existing new w =
     (if MoveFile_fails w existing new then (FALSE, w)
      else
        (case files w existing of
           None \<Rightarrow> (FALSE, w)
         | Some n \<Rightarrow>
             (if files w new \<noteq> None then (FALSE, w)
              else (TRUE, w\<lparr>files := (files w)(existing := None, new \<mapsto> n)\<rparr>))))"

definition GetLocalTime :: "world \<Rightarrow> SYSTEMTIME" where
  "GetLocalTime w = clock w"

definition InitializeCriticalSection :: "CRITICAL_SECTION \<Rightarrow> CRITICAL_SECTION" where
  "InitializeCriticalSection cs = CS_Ready 0"

definition DeleteCriticalSection :: "CRITICAL_SECTION \<Rightarrow> CRITICAL_SECTION" where
  "DeleteCriticalSection cs = CS_Deleted"

text \<open>
  Entering or leaving a critical section that is not initialised has no defined effect
  on the platform; the model leaves the object as it is.
\<close>

fun EnterCriticalSection :: "CRITICAL_SECTION \<Rightarrow> CRITICAL_SECTION" where
  "EnterCriticalSection (CS_Ready n) = CS_Ready (Suc n)"
| "EnterCriticalSection cs = cs"

fun LeaveCriticalSection :: "CRITICAL_SECTION \<Rightarrow> CRITICAL_SECTION" where
  "LeaveCriticalSection (CS_Ready (Suc n)) = CS_Ready n"
| "LeaveCriticalSection cs = cs"

text \<open>The lock is held when the thread has entered it more often than left it.\<close>

fun lock_held :: "CRITICAL_SECTION \<Rightarrow> bool" where
  "lock_held (CS_Ready (Suc n)) = True"
| "lock_held cs = False"

subsection \<open>Formatted output\<close>

text \<open>
  An \<open>int\<close> handed to a \<open>size_t\<close> parameter is converted modulo \<open>2 ^ 64\<close> (a 64-bit
  build; every call of the header passes a positive \<open>sizeof\<close>).
\<close>

definition size_t :: "int \<Rightarrow> nat" where
  "size_t n = nat (n mod 2 ^ 64)"

text \<open>
  The buffer after \<open>snprintf(szBuff, nSize, fmt, ...)\<close>, where \<open>s\<close> is the expansion of the
  format: at most \<open>nSize - 1\<close> bytes are stored before the NUL, and nothing when \<open>nSize\<close>
  is 0.
\<close>

definition snprintf :: "string \<Rightarrow> nat \<Rightarrow> string \<Rightarrow> string" where
  "snprintf szBuff nSize s = (if nSize = 0 then szBuff else take (nSize - 1) s)"

text \<open>
  The variable arguments of a call are represented by the expansion they give to a format
  string; the directive language of \<open>printf\<close> is the platform's.
\<close>

type_synonym va_list = "string \<Rightarrow> string"

definition vsnprintf :: "string \<Rightarrow> nat \<Rightarrow> string \<Rightarrow> va_list \<Rightarrow> string" where
  "vsnprintf szBuff nSize szFmt arg = snprintf szBuff nSize (arg szFmt)"

text \<open>The directives \<open>%d\<close> and \<open>%0\<close>\<open>w\<close>\<open>d\<close>.\<close>

fun dec :: "nat \<Rightarrow> string" where
  "dec n =
     (if n < 10 then [''0123456789'' ! n]
      else dec (n div 10) @ [''0123456789'' ! (n mod 10)])"

declare dec.simps [simp del]

definition fmt_d :: "int \<Rightarrow> string" where
  "fmt_d i = (if i < 0 then CHR ''-'' # dec (nat (- i)) else dec (nat i))"

definition fmt_0d :: "nat \<Rightarrow> int \<Rightarrow> string" where
  "fmt_0d width i =
     (if i < 0 then
        CHR ''-'' # replicate (width - 1 - length (dec (nat (- i)))) CHR ''0'' @ dec (nat (- i))
      else replicate (width - length (dec (nat i))) CHR ''0'' @ dec (nat i))"

text \<open>The part \<open>"%04d/%02d/%02d, %02d:%02d:%02d.%03d, "\<close> both kinds of line start with.\<close>

definition fmt_time :: "SYSTEMTIME \<Rightarrow> string" where
  "fmt_time t =
     fmt_0d 4 (uint (wYear t)) @ ''/'' @ fmt_0d 2 (uint (wMonth t)) @ ''/'' @
     fmt_0d 2 (uint (wDay t)) @ '', '' @ fmt_0d 2 (uint (wHour t)) @ '':'' @
     fmt_0d 2 (uint (wMinute t)) @ '':'' @ fmt_0d 2 (uint (wSecond t)) @ ''.'' @
     fmt_0d 3 (uint (wMilliseconds t)) @ '', ''"

definition CRLF :: string where
  "CRLF = [CHR 0x0D, CHR 0x0A]"

text \<open>
  \<open>_splitpath\<close> gives drive, directory, file name and extension of a path. It is the
  platform's, and a parameter here.
\<close>

type_synonym splitpath = "string \<Rightarrow> string \<times> string \<times> string \<times> string"

text \<open>
  The content of a local array after a call that was given a pointer to it and returned
  its C result with the new content.
\<close>

definition local_buf :: "string \<Rightarrow> int \<times> string option \<Rightarrow> string" where
  "local_buf old r = (case snd r of Some s \<Rightarrow> s | None \<Rightarrow> old)"

subsection \<open>The functions of the header\<close>

definition log_level :: "LOG_LEVEL \<Rightarrow> string" where
  "log_level enLevel =
     (if enLevel = ERR then ''ERR''
      else if enLevel = WAR then ''WAR''
      else if enLevel = INF_level then ''INF''
      else if enLevel = DBG then ''DBG''
      else ''???'')"

definition get_fname_from_path :: "splitpath \<Rightarrow> string option \<Rightarrow> string option \<Rightarrow> int \<Rightarrow> string" where
  "get_fname_from_path sp szPath szBuff nSize =
     (if szPath = None \<or> szBuff = None then ''(NULL)''
      else
        (case sp (the szPath) of
           (drive, dir, szFname', szExt) \<Rightarrow>
             snprintf (the szBuff) (size_t nSize) (szFname' @ szExt)))"

text \<open>
  The four lock functions are only called with a channel that was checked against
  \<open>NULL\<close>, so they take the structure itself.
\<close>

definition log_lock_init :: "LOG_INFO \<Rightarrow> LOG_INFO" where
  "log_lock_init st = st\<lparr>stCS := InitializeCriticalSection (stCS st)\<rparr>"

definition log_lock_delete :: "LOG_INFO \<Rightarrow> LOG_INFO" where
  "log_lock_delete st = st\<lparr>stCS := DeleteCriticalSection (stCS st)\<rparr>"

definition log_lock :: "LOG_INFO \<Rightarrow> LOG_INFO" where
  "log_lock st = st\<lparr>stCS := EnterCriticalSection (stCS st)\<rparr>"

definition log_unlock :: "LOG_INFO \<Rightarrow> LOG_INFO" where
  "log_unlock st = st\<lparr>stCS := LeaveCriticalSection (stCS st)\<rparr>"

definition get_backupname :: "LOG_INFO option \<Rightarrow> int \<Rightarrow> string option \<Rightarrow> int \<Rightarrow> int \<times> string option" where
  "get_backupname pstLog nBkNo szBuff nSize =
     (if pstLog = None \<or> szBuff = None \<or> nBkNo < 0 \<or> nLogBackup (the pstLog) < nBkNo
      then (- 1, szBuff)
      else
        (0, Some (snprintf (the szBuff) (size_t nSize)
                    (szDir (the pstLog) @ szFname (the pstLog) @ ''_'' @ fmt_d nBkNo @
                     szFext (the pstLog)))))"

definition copy_filepath :: "splitpath \<Rightarrow> LOG_INFO option \<Rightarrow> string option \<Rightarrow> int \<times> LOG_INFO option" where
  "copy_filepath sp pstLog szPath =
     (if pstLog = None \<or> szPath = None then (- 1, pstLog)
      else
        (case sp (the szPath) of
           (tmpDrive, tmpDir, tmpFname, tmpFext) \<Rightarrow>
             (let st0 = (the pstLog)\<lparr>szDir := [], szFname := [], szFext := [], szLogPath := []\<rparr>;
                  st1 = st0\<lparr>szDir := snprintf (szDir st0) sizeof_path (tmpDrive @ tmpDir)\<rparr>;
                  st2 = st1\<lparr>szFname := snprintf (szFname st1) sizeof_path tmpFname\<rparr>;
                  st3 = st2\<lparr>szFext := snprintf (szFext st2) sizeof_path tmpFext\<rparr>;
                  r = get_backupname (Some st3) 0 (Some (szLogPath st3)) (int sizeof_path)
              in (fst r, Some (st3\<lparr>szLogPath := local_buf (szLogPath st3) r\<rparr>)))))"

definition get_filesize :: "string option \<Rightarrow> world \<Rightarrow> int \<times> world" where
  "get_filesize szPath w =
     (if szPath = None then (- 1, w)
      else
        (case fopen (the szPath) ''rb'' w of
           (None, w1) \<Rightarrow> (- 1, w1)
         | (Some fp, w1) \<Rightarrow>
             (let fsize = filelength fp w1;
                  fsize = drop_bit 10 fsize
              in case fclose fp w1 of
                   (rc, w2) \<Rightarrow> if rc \<noteq> 0 then (- 1, w2) else (fsize, w2))))"

text \<open>The \<open>for\<close> loop of \<open>_backup_file\<close>, from \<open>nBkNo\<close> down to 0.\<close>

function backup_loop :: "LOG_INFO \<Rightarrow> int \<Rightarrow> string \<Rightarrow> string \<Rightarrow> world \<Rightarrow> world" where
  "backup_loop st nBkNo szBefore szAfter w =
     (if 0 \<le> nBkNo then
        (let szBefore1 = local_buf szBefore
               (get_backupname (Some st) nBkNo (Some szBefore) (int sizeof_path))
         in if PathFileExists szBefore1 w \<and> \<not> PathIsDirectory szBefore1 w then
              (let szAfter1 = local_buf szAfter
                     (get_backupname (Some st) (nBkNo + 1) (Some szAfter) (int sizeof_path));
                   w1 = snd (MoveFile szBefore1 szAfter1 w)
               in backup_loop st (nBkNo - 1) szBefore1 szAfter1 w1)
            else backup_loop st (nBkNo - 1) szBefore1 szAfter w)
      else w)"
  by pat_completeness auto
termination
  by (relation "measure (\<lambda>(st, nBkNo, szBefore, szAfter, w). nat (nBkNo + 1))") auto

declare backup_loop.simps [simp del]

definition backup_file :: "LOG_INFO option \<Rightarrow> world \<Rightarrow> int \<times> world" where
  "backup_file pstLog w =
     (if pstLog = None then (- 1, w)
      else
        (case get_filesize (Some (szLogPath (the pstLog))) w of
           (fsize, w0) \<Rightarrow>
             if fsize < 0 then (0, w0)
             else if nFileSize (the pstLog) \<le> fsize then
               (let szBefore = stack_garbage w0;
                    szAfter = stack_garbage w0;
                    szBefore1 = local_buf szBefore
                      (get_backupname pstLog (nLogBackup (the pstLog)) (Some szBefore)
                         (int sizeof_path));
                    w1 = (if PathFileExists szBefore1 w0 \<and> \<not> PathIsDirectory szBefore1 w0
                          then snd (DeleteFile szBefore1 w0) else w0)
                in (0, backup_loop (the pstLog) (nLogBackup (the pstLog) - 1) szBefore1 szAfter w1))
             else (0, w0)))"

definition log_start :: "splitpath \<Rightarrow> LOG_INFO option \<Rightarrow> string option \<Rightarrow> int \<times> LOG_INFO option" where
  "log_start sp pstLog szPath =
     (if pstLog = None \<or> szPath = None then (- 1, pstLog)
      else
        (let st0 = (the pstLog)\<lparr>szLogPath := [], szDir := [], szFname := [], szFext := []\<rparr>;
             st1 = st0\<lparr>bUsed := TRUE, nFileSize := MAX_FILE_SIZE, nLogBackup := MAX_LOG_BACKUP\<rparr>;
             st2 = log_lock_init st1;
             r = copy_filepath sp (Some st2) szPath
         in (0, snd r)))"

definition log_end :: "LOG_INFO option \<Rightarrow> int \<times> LOG_INFO option" where
  "log_end pstLog =
     (if pstLog = None then (- 1, pstLog)
      else
        (let st1 = log_lock_delete (the pstLog)
         in (0, Some (st1\<lparr>bUsed := FALSE\<rparr>))))"

definition log_write ::
    "LOG_INFO option \<Rightarrow> LOG_LEVEL \<Rightarrow> string option \<Rightarrow> va_list \<Rightarrow> world \<Rightarrow> int \<times> LOG_INFO option \<times> world" where
  "log_write pstLog enLevel szFmt arg w =
     (if pstLog = None \<or> szFmt = None \<or> bUsed (the pstLog) = FALSE then (- 1, pstLog, w)
      else
        (let st1 = log_lock (the pstLog);
             w1 = snd (backup_file (Some st1) w);
             szBuff0 = vsnprintf (stack_garbage w1) MAX_LOG_TEXT (the szFmt) arg
         in case fopen (szLogPath st1) ''ab+'' w1 of
              (None, w2) \<Rightarrow> (- 1, Some st1, w2)
            | (Some fp, w2) \<Rightarrow>
                (let stTime = GetLocalTime w2;
                     szBuff1 = snprintf (stack_garbage w2) (MAX_LOG_TEXT * 2)
                       (fmt_time stTime @ log_level enLevel @ '', '' @ szBuff0 @ CRLF);
                     w3 = snd (fputs szBuff1 fp w2)
                 in case fclose fp w3 of
                      (rc, w4) \<Rightarrow>
                        if rc \<noteq> 0 then (- 1, Some (log_unlock st1), w4)
                        else (0, Some (log_unlock st1), w4))))"

definition log_debug ::
    "splitpath \<Rightarrow> LOG_INFO option \<Rightarrow> LOG_LEVEL \<Rightarrow> string option \<Rightarrow> int \<Rightarrow> string option \<Rightarrow>
     string option \<Rightarrow> va_list \<Rightarrow> world \<Rightarrow> int \<times> LOG_INFO option \<times> world" where
  "log_debug sp pstLog enLevel szFile nLine szFunc szFmt arg w =
     (if pstLog = None \<or> szFmt = None \<or> szFile = None \<or> szFunc = None \<or>
         bUsed (the pstLog) = FALSE
      then (- 1, pstLog, w)
      else
        (let st1 = log_lock (the pstLog);
             w1 = snd (backup_file (Some st1) w);
             szFilename = [];
             szBuff0 = vsnprintf (stack_garbage w1) MAX_LOG_TEXT (the szFmt) arg
         in case fopen (szLogPath st1) ''ab+'' w1 of
              (None, w2) \<Rightarrow> (- 1, Some st1, w2)
            | (Some fp, w2) \<Rightarrow>
                (let stTime = GetLocalTime w2;
                     szBuff1 = snprintf (stack_garbage w2) (MAX_LOG_TEXT * 2)
                       (fmt_time stTime @ log_level enLevel @ '', '' @
                        get_fname_from_path sp szFile (Some szFilename) (int MAX_PATH) @
                        ''('' @ fmt_d nLine @ ''), '' @ the szFunc @ '', '' @ szBuff0 @ CRLF);
                     w3 = snd (fputs szBuff1 fp w2)
                 in case fclose fp w3 of
                      (rc, w4) \<Rightarrow>
                        if rc \<noteq> 0 then (- 1, Some (log_unlock st1), w4)
                        else (0, Some (log_unlock st1), w4))))"

subsection \<open>The rotation cascade as the specification words it\<close>

text \<open>
  The specification describes rotation by its steps; the definitions of this subsection
  follow those words and are compared with \<open>backup_file\<close> below. A regular file is an
  entry of the file system that is not a directory. \<open>backupName st i\<close> is the name the
  namer \<open>get_backupname\<close> leaves in a buffer of \<open>sizeof_path\<close> bytes for index \<open>i\<close>.
\<close>

definition regular_file_at :: "string \<Rightarrow> world \<Rightarrow> bool" where
  "regular_file_at path w = (case files w path of Some (RegularFile c) \<Rightarrow> True | _ \<Rightarrow> False)"

definition backupName :: "LOG_INFO \<Rightarrow> int \<Rightarrow> string" where
  "backupName st i = local_buf [] (get_backupname (Some st) i (Some []) (int sizeof_path))"

text \<open>Step a: the oldest slot is deleted when a regular file is there.\<close>

definition delete_oldest :: "LOG_INFO \<Rightarrow> world \<Rightarrow> world" where
  "delete_oldest st w =
     (if regular_file_at (backupName st (nLogBackup st)) w
      then snd (DeleteFile (backupName st (nLogBackup st)) w) else w)"

text \<open>Step b for one index: a regular file at slot \<open>i\<close> is renamed to slot \<open>i + 1\<close>.\<close>

definition shift_backup :: "LOG_INFO \<Rightarrow> int \<Rightarrow> world \<Rightarrow> world" where
  "shift_backup st i w =
     (if regular_file_at (backupName st i) w
      then snd (MoveFile (backupName st i) (backupName st (i + 1)) w) else w)"

text \<open>The cascade: step a, then step b for the indices \<open>backupCount - 1\<close> down to 0.\<close>

definition rotation_cascade :: "LOG_INFO \<Rightarrow> world \<Rightarrow> world" where
  "rotation_cascade st w =
     fold (shift_backup st) (rev [0..nLogBackup st - 1]) (delete_oldest st w)"

text \<open>
  The size the rotation check obtains for the live file, in units of 1024 bytes, when it
  obtains one: the file opens for reading, its length fits a \<open>long\<close>, and it closes.
\<close>

definition measured_units :: "LOG_INFO \<Rightarrow> world \<Rightarrow> int option" where
  "measured_units st w =
     (case files w (szLogPath st) of
        Some (RegularFile c) \<Rightarrow>
          (if fopen_fails w (szLogPath st) ''rb'' then None
           else if LONG_MAX < int (length c) then None
           else if fclose_fails w \<lparr>fpath = szLogPath st, fmode = ''rb''\<rparr> then None
           else Some (int (length c) div 1024))
      | _ \<Rightarrow> None)"

text \<open>
  The two failures a write reports. Opening the live file for appending fails when the
  platform refuses it or a directory has that name; closing fails when the platform says so.
\<close>

definition append_open_fails :: "LOG_INFO \<Rightarrow> world \<Rightarrow> bool" where
  "append_open_fails st w \<longleftrightarrow>
     fopen_fails w (szLogPath st) ''ab+'' \<or> files w (szLogPath st) = Some Directory"

definition append_close_fails :: "LOG_INFO \<Rightarrow> world \<Rightarrow> bool" where
  "append_close_fails st w \<longleftrightarrow> fclose_fails w \<lparr>fpath = szLogPath st, fmode = ''ab+''\<rparr>"

text \<open>
  What a call leaves untouched: \<open>frame w w'\<close> says that \<open>w'\<close> differs from \<open>w\<close> in its
  files only, and has its directories where \<open>w\<close> has them.
\<close>

definition frame :: "world \<Rightarrow> world \<Rightarrow> bool" where
  "frame w w' \<longleftrightarrow>
     w' = w\<lparr>files := files w'\<rparr> \<and>
     (\<forall>p. files w' p = Some Directory \<longleftrightarrow> files w p = Some Directory)"

subsection \<open>Sequences of writes\<close>

text \<open>
  What the caller does with a started channel: calls of \<open>log_write\<close> and \<open>log_debug\<close>, each
  finding the platform in a state of its own. \<open>after_calls\<close> is the channel after a
  sequence of them.
\<close>

datatype call =
    Write LOG_LEVEL "string option" va_list world
  | Debug LOG_LEVEL "string option" int "string option" "string option" va_list world

fun after_calls :: "splitpath \<Rightarrow> call list \<Rightarrow> LOG_INFO option \<Rightarrow> LOG_INFO option" where
  "after_calls sp [] pstLog = pstLog"
| "after_calls sp (Write enLevel szFmt arg w # cs) pstLog =
     after_calls sp cs (fst (snd (log_write pstLog enLevel szFmt arg w)))"
| "after_calls sp (Debug enLevel szFile nLine szFunc szFmt arg w # cs) pstLog =
     after_calls sp cs (fst (snd (log_debug sp pstLog enLevel szFile nLine szFunc szFmt arg w)))"

subsection \<open>Sample values\<close>

text \<open>
  A zero-filled channel structure (created, never started), a clock reading, a platform
  without failures over a given file system, and what \<open>_splitpath\<close> answers for three paths:
  a short one, the empty one, and one of 259 characters.
\<close>

definition zeroed :: LOG_INFO where
  "zeroed = \<lparr>stCS = CS_Garbage, szLogPath = [], bUsed = 0, nFileSize = 0, nLogBackup = 0,
             szDir = [], szFname = [], szFext = []\<rparr>"

definition sample_time :: SYSTEMTIME where
  "sample_time = \<lparr>wYear = 2024, wMonth = 2, wDayOfWeek = 4, wDay = 29, wHour = 9,
                  wMinute = 5, wSecond = 7, wMilliseconds = 42\<rparr>"

definition calm :: "(string \<rightharpoonup> node) \<Rightarrow> world" where
  "calm fs = \<lparr>files = fs, clock = sample_time, stack_garbage = ''#'',
              fopen_fails = (\<lambda>path mode. False), fputs_fails = (\<lambda>fp. False),
              fclose_fails = (\<lambda>fp. False), DeleteFile_fails = (\<lambda>path. False),
              MoveFile_fails = (\<lambda>existing new. False)\<rparr>"

definition long_path :: string where
  "long_path = ''C:/'' @ replicate 252 CHR ''a'' @ ''.log''"

definition sample_splitpath :: splitpath where
  "sample_splitpath path =
     (if path = ''C:/logs/app.log'' then (''C:'', ''/logs/'', ''app'', ''.log'')
      else if path = long_path then (''C:'', ''/'', replicate 252 CHR ''a'', ''.log'')
      else ([], [], [], []))"

text \<open>
  The channel that \<open>log_start\<close> makes of \<open>C:/logs/app.log\<close>, the one it makes of the long
  path, and the first after \<open>log_end\<close>.
\<close>

definition app_info :: LOG_INFO where
  "app_info = \<lparr>stCS = CS_Ready 0, szLogPath = ''C:/logs/app_0.log'', bUsed = 1,
               nFileSize = 1024, nLogBackup = 3, szDir = ''C:/logs/'', szFname = ''app'',
               szFext = ''.log''\<rparr>"

definition long_info :: LOG_INFO where
  "long_info = \<lparr>stCS = CS_Ready 0, szLogPath = ''C:/'' @ replicate 252 CHR ''a'' @ ''_0.lo'',
                bUsed = 1, nFileSize = 1024, nLogBackup = 3, szDir = ''C:/'',
                szFname = replicate 252 CHR ''a'', szFext = ''.log''\<rparr>"

definition stopped_info :: LOG_INFO where
  "stopped_info = app_info\<lparr>stCS := CS_Deleted, bUsed := 0\<rparr>"

definition no_args :: va_list where
  "no_args szFmt = szFmt"

text \<open>A live file of 1024 units of 1024 bytes, and file systems around it.\<close>

definition full_log :: string where
  "full_log = replicate 1048576 CHR ''x''"

definition rotating_files :: "string \<rightharpoonup> node" where
  "rotating_files =
     [''C:/logs/app_0.log'' \<mapsto> RegularFile full_log,
      ''C:/logs/app_1.log'' \<mapsto> RegularFile ''one'',
      ''C:/logs/app_3.log'' \<mapsto> RegularFile ''three'']"

definition cluttered_files :: "string \<rightharpoonup> node" where
  "cluttered_files =
     [''C:/logs/app_0.log'' \<mapsto> RegularFile full_log,
      ''C:/logs/app_1.log'' \<mapsto> Directory,
      ''C:/logs/app_3.log'' \<mapsto> Directory]"

definition blocked_files :: "string \<rightharpoonup> node" where
  "blocked_files = [''C:/logs/app_0.log'' \<mapsto> Directory]"

definition probe_close_fails :: world where
  "probe_close_fails = (calm rotating_files)\<lparr>fclose_fails := (\<lambda>fp. fmode fp = ''rb'')\<rparr>"

definition stuck_rotation :: world where
  "stuck_rotation = (calm rotating_files)
     \<lparr>DeleteFile_fails := (\<lambda>path. True), MoveFile_fails := (\<lambda>existing new. True)\<rparr>"

section \<open>Auxiliary facts\<close>

text \<open>
  Names and the loop: in range the namer writes the first \<open>MAX_PATH\<close> characters of the
  composed name whatever the buffer held, and the \<open>for\<close> loop of \<open>backup_file\<close> is the
  fold of the renaming step over the indices in descending order.
\<close>

lemma size_t_path: "size_t (int sizeof_path) = MAX_PATH + 1"
  by (simp add: size_t_def MAX_PATH_def sizeof_path_def)

lemma get_backupname_in_range:
  assumes "0 \<le> i" and "i \<le> nLogBackup st"
  shows "get_backupname (Some st) i (Some b) (int sizeof_path) =
           (0, Some (take MAX_PATH (szDir st @ szFname st @ ''_'' @ fmt_d i @ szFext st)))"
  using assms by (simp add: get_backupname_def size_t_path snprintf_def)

lemma get_backupname_out_of_range:
  assumes "i < 0 \<or> nLogBackup st < i"
  shows "get_backupname (Some st) i b n = (- 1, b)"
  using assms by (auto simp add: get_backupname_def)

lemma local_buf_backupName:
  assumes "0 \<le> i" and "i \<le> nLogBackup st"
  shows "local_buf old (get_backupname (Some st) i (Some b) (int sizeof_path)) = backupName st i"
  using assms by (simp add: backupName_def get_backupname_in_range local_buf_def)

lemma regular_file_at_iff:
  "(PathFileExists p w \<and> \<not> PathIsDirectory p w) = regular_file_at p w"
  by (auto simp add: PathFileExists_def PathIsDirectory_def regular_file_at_def
      split: option.splits node.splits)

lemma rev_upto_step: "0 \<le> n \<Longrightarrow> rev [0..n] = n # rev [0..n - 1]"
  by (simp add: upto_rec2)

lemma shift_reg:
  "regular_file_at (backupName st i) w \<Longrightarrow>
     shift_backup st i w = snd (MoveFile (backupName st i) (backupName st (i + 1)) w)"
  by (simp add: shift_backup_def)

lemma shift_nreg: "\<not> regular_file_at (backupName st i) w \<Longrightarrow> shift_backup st i w = w"
  by (simp add: shift_backup_def)

lemma backup_loop_fold:
  "n < nLogBackup st \<Longrightarrow>
     backup_loop st n szBefore szAfter w = fold (shift_backup st) (rev [0..n]) w"
proof (induction st n szBefore szAfter w rule: backup_loop.induct)
  case (1 st nBkNo szBefore szAfter w)
  show ?case
  proof (cases "0 \<le> nBkNo")
    case False
    then show ?thesis by (simp add: backup_loop.simps)
  next
    case True
    have before: "local_buf szBefore
        (get_backupname (Some st) nBkNo (Some szBefore) (int sizeof_path)) = backupName st nBkNo"
      using True "1.prems" by (simp add: local_buf_backupName)
    have after: "local_buf szAfter
        (get_backupname (Some st) (nBkNo + 1) (Some szAfter) (int sizeof_path)) =
          backupName st (nBkNo + 1)"
      using True "1.prems" by (simp add: local_buf_backupName)
    show ?thesis
    proof (cases "regular_file_at (backupName st nBkNo) w")
      case reg: True
      have "backup_loop st nBkNo szBefore szAfter w =
            backup_loop st (nBkNo - 1) (backupName st nBkNo) (backupName st (nBkNo + 1))
              (snd (MoveFile (backupName st nBkNo) (backupName st (nBkNo + 1)) w))"
        using True reg
        by (subst backup_loop.simps) (simp add: before after regular_file_at_iff Let_def)
      also have "\<dots> = fold (shift_backup st) (rev [0..nBkNo - 1])
              (snd (MoveFile (backupName st nBkNo) (backupName st (nBkNo + 1)) w))"
        using "1.IH"(1) [OF True] True reg "1.prems"
        by (simp add: before after regular_file_at_iff)
      finally show ?thesis
        using True shift_reg [OF reg] by (simp add: rev_upto_step)
    next
      case nreg: False
      have "backup_loop st nBkNo szBefore szAfter w =
            backup_loop st (nBkNo - 1) (backupName st nBkNo) szAfter w"
        using True nreg
        by (subst backup_loop.simps) (simp add: before after regular_file_at_iff Let_def)
      also have "\<dots> = fold (shift_backup st) (rev [0..nBkNo - 1]) w"
        using "1.IH"(2) [OF True] True nreg "1.prems"
        by (simp add: before after regular_file_at_iff)
      finally show ?thesis
        using True shift_nreg [OF nreg] by (simp add: rev_upto_step)
    qed
  qed
qed

text \<open>
  The frame of the rotation check: deleting and renaming regular files changes the files
  only and keeps every directory; the size measurement changes nothing. With a backup
  count that is not negative, the check is the cascade applied under the measured size.
\<close>

lemma frame_refl: "frame w w"
  by (simp add: frame_def)

lemma frame_trans: "frame w w' \<Longrightarrow> frame w' w'' \<Longrightarrow> frame w w''"
  unfolding frame_def
  by (metis world.surjective world.update_convs(1))

lemma frame_DeleteFile: "frame w (snd (DeleteFile p w))"
  by (auto simp add: frame_def DeleteFile_def split: option.splits node.splits)

lemma frame_MoveFile: "regular_file_at p w \<Longrightarrow> frame w (snd (MoveFile p q w))"
  by (auto simp add: frame_def MoveFile_def regular_file_at_def split: option.splits node.splits)

lemma frame_backup_loop: "frame w (backup_loop st n szBefore szAfter w)"
proof (induction st n szBefore szAfter w rule: backup_loop.induct)
  case (1 st nBkNo szBefore szAfter w)
  let ?b = "local_buf szBefore (get_backupname (Some st) nBkNo (Some szBefore) (int sizeof_path))"
  let ?a = "local_buf szAfter (get_backupname (Some st) (nBkNo + 1) (Some szAfter) (int sizeof_path))"
  show ?case
  proof (cases "0 \<le> nBkNo")
    case False
    then show ?thesis by (simp add: backup_loop.simps frame_refl)
  next
    case True
    show ?thesis
    proof (cases "regular_file_at ?b w")
      case reg: True
      have "backup_loop st nBkNo szBefore szAfter w =
            backup_loop st (nBkNo - 1) ?b ?a (snd (MoveFile ?b ?a w))"
        using True reg by (subst backup_loop.simps) (simp add: regular_file_at_iff Let_def)
      moreover have "frame (snd (MoveFile ?b ?a w))
          (backup_loop st (nBkNo - 1) ?b ?a (snd (MoveFile ?b ?a w)))"
        using "1.IH"(1) [OF True] reg by (simp add: regular_file_at_iff)
      ultimately show ?thesis
        using frame_trans [OF frame_MoveFile [OF reg]] by simp
    next
      case nreg: False
      have "backup_loop st nBkNo szBefore szAfter w = backup_loop st (nBkNo - 1) ?b szAfter w"
        using True nreg by (subst backup_loop.simps) (simp add: regular_file_at_iff Let_def)
      moreover have "frame w (backup_loop st (nBkNo - 1) ?b szAfter w)"
        using "1.IH"(2) [OF True] nreg by (simp add: regular_file_at_iff)
      ultimately show ?thesis by simp
    qed
  qed
qed

lemma get_filesize_measured:
  "get_filesize (Some (szLogPath st)) w =
     (case measured_units st w of None \<Rightarrow> (- 1, w) | Some u \<Rightarrow> (u, w))"
  by (auto simp add: get_filesize_def measured_units_def fopen_def fclose_def filelength_def
      Let_def drop_bit_eq_div EOF_def split: option.splits node.splits)

lemma measured_units_nonneg: "measured_units st w = Some u \<Longrightarrow> 0 \<le> u"
  by (auto simp add: measured_units_def split: option.splits node.splits if_splits)

lemma frame_backup_file: "frame w (snd (backup_file pstLog w))"
proof (cases pstLog)
  case None
  then show ?thesis by (simp add: backup_file_def frame_refl)
next
  case (Some st)
  have step: "frame w (backup_loop st n b a (if C then snd (DeleteFile x w) else w))"
    for n b a x C
    using frame_trans [OF frame_DeleteFile frame_backup_loop] frame_backup_loop
    by (cases C) simp_all
  show ?thesis
    using Some
    by (simp add: backup_file_def get_filesize_measured Let_def frame_refl step
        split: option.splits)
qed

lemma backup_file_cascade:
  assumes "0 \<le> nLogBackup st"
  shows "backup_file (Some st) w =
     (0, case measured_units st w of
           None \<Rightarrow> w
         | Some u \<Rightarrow> if nFileSize st \<le> u then rotation_cascade st w else w)"
proof (cases "measured_units st w")
  case None
  then show ?thesis by (simp add: backup_file_def get_filesize_measured)
next
  case (Some u)
  have nonneg: "0 \<le> u" using Some by (rule measured_units_nonneg)
  show ?thesis
  proof (cases "nFileSize st \<le> u")
    case False
    then show ?thesis using Some nonneg by (simp add: backup_file_def get_filesize_measured)
  next
    case True
    have name: "local_buf (stack_garbage w)
        (get_backupname (Some st) (nLogBackup st) (Some (stack_garbage w)) (int sizeof_path)) =
        backupName st (nLogBackup st)"
      using assms by (simp add: local_buf_backupName)
    have loop: "backup_loop st (nLogBackup st - 1) b a w' =
        fold (shift_backup st) (rev [0..nLogBackup st - 1]) w'" for b a w'
      by (rule backup_loop_fold) simp
    show ?thesis
      using Some nonneg True
      by (simp add: backup_file_def get_filesize_measured Let_def name loop
          rotation_cascade_def delete_oldest_def regular_file_at_iff)
  qed
qed

text \<open>
  The result of a write on an active channel, and the channel it leaves: \<open>-1\<close> exactly
  when the append open or the close fails, and the lock left exactly when the open
  succeeded.
\<close>


lemma frameE:
  assumes "frame w w'"
  obtains f where "w' = w\<lparr>files := f\<rparr>"
    and "\<And>p. f p = Some Directory \<longleftrightarrow> files w p = Some Directory"
proof -
  from assms have "w' = w\<lparr>files := files w'\<rparr>"
    and "\<And>p. files w' p = Some Directory \<longleftrightarrow> files w p = Some Directory"
    by (simp_all add: frame_def)
  then show thesis by (rule that)
qed

lemma szLogPath_log_lock: "szLogPath (log_lock st) = szLogPath st"
  by (simp add: log_lock_def)

lemma log_write_outcome:
  assumes "bUsed st \<noteq> FALSE"
  shows "fst (log_write (Some st) lvl (Some fmt) arg w) =
           (if append_open_fails st w \<or> append_close_fails st w then - 1 else 0) \<and>
         fst (snd (log_write (Some st) lvl (Some fmt) arg w)) =
           Some (if append_open_fails st w then log_lock st else log_unlock (log_lock st))"
proof -
  obtain f where w1: "snd (backup_file (Some (log_lock st)) w) = w\<lparr>files := f\<rparr>"
    and dirs: "\<And>p. f p = Some Directory \<longleftrightarrow> files w p = Some Directory"
    using frame_backup_file [of w "Some (log_lock st)"] by (auto elim: frameE)
  show ?thesis
    using assms dirs [of "szLogPath st"]
    by (auto simp add: log_write_def Let_def w1 szLogPath_log_lock fopen_def fclose_def fputs_def
        EOF_def append_open_fails_def append_close_fails_def
        split: option.splits node.splits)
qed

lemma log_debug_outcome:
  assumes "bUsed st \<noteq> FALSE"
  shows "fst (log_debug sp (Some st) lvl (Some szFile) nLine (Some szFunc) (Some fmt) arg w) =
           (if append_open_fails st w \<or> append_close_fails st w then - 1 else 0) \<and>
         fst (snd (log_debug sp (Some st) lvl (Some szFile) nLine (Some szFunc) (Some fmt) arg w)) =
           Some (if append_open_fails st w then log_lock st else log_unlock (log_lock st))"
proof -
  obtain f where w1: "snd (backup_file (Some (log_lock st)) w) = w\<lparr>files := f\<rparr>"
    and dirs: "\<And>p. f p = Some Directory \<longleftrightarrow> files w p = Some Directory"
    using frame_backup_file [of w "Some (log_lock st)"] by (auto elim: frameE)
  show ?thesis
    using assms dirs [of "szLogPath st"]
    by (auto simp add: log_debug_def Let_def w1 szLogPath_log_lock fopen_def fclose_def fputs_def
        EOF_def append_open_fails_def append_close_fails_def
        split: option.splits node.splits)
qed

text \<open>
  The sample channels are what \<open>log_start\<close> computes.
\<close>

lemma log_start_app:
  "log_start sample_splitpath (Some zeroed) (Some ''C:/logs/app.log'') = (0, Some app_info)"
  by (simp add: log_start_def copy_filepath_def sample_splitpath_def zeroed_def app_info_def
      log_lock_init_def InitializeCriticalSection_def get_backupname_def snprintf_def MAX_PATH_def
      sizeof_path_def size_t_def fmt_d_def dec.simps local_buf_def TRUE_def MAX_FILE_SIZE_def
      MAX_LOG_BACKUP_def Let_def)

lemma long_path_not_app: "long_path \<noteq> ''C:/logs/app.log''"
proof
  assume "long_path = ''C:/logs/app.log''"
  then have "length long_path = length ''C:/logs/app.log''" by simp
  then show False by (simp add: long_path_def)
qed

lemma splitpath_long:
  "sample_splitpath long_path = (''C:'', ''/'', replicate 252 CHR ''a'', ''.log'')"
  by (simp add: sample_splitpath_def long_path_not_app)

lemma log_start_long:
  "log_start sample_splitpath (Some zeroed) (Some long_path) = (0, Some long_info)"
  by (simp add: log_start_def copy_filepath_def splitpath_long zeroed_def long_info_def
      log_lock_init_def InitializeCriticalSection_def get_backupname_def snprintf_def MAX_PATH_def
      sizeof_path_def size_t_def fmt_d_def dec.simps local_buf_def TRUE_def MAX_FILE_SIZE_def
      MAX_LOG_BACKUP_def Let_def)

text \<open>
  Writes change the lock field of the channel at most, and \<open>log_start\<close> computes every
  field of the channel from the answer of \<open>_splitpath\<close>.
\<close>

lemma write_keeps_fields:
  "\<exists>cs. fst (snd (log_write (Some st) lvl szFmt arg w)) = Some (st\<lparr>stCS := cs\<rparr>)"
proof (cases "szFmt = None \<or> bUsed st = FALSE")
  case True
  then have "fst (snd (log_write (Some st) lvl szFmt arg w)) = Some (st\<lparr>stCS := stCS st\<rparr>)"
    by (auto simp add: log_write_def)
  then show ?thesis ..
next
  case False
  then obtain fmt where "szFmt = Some fmt" and "bUsed st \<noteq> FALSE" by auto
  then show ?thesis
    using log_write_outcome [of st lvl fmt arg w]
    by (auto simp add: log_lock_def log_unlock_def)
qed

lemma debug_keeps_fields:
  "\<exists>cs. fst (snd (log_debug sp (Some st) lvl szFile nLine szFunc szFmt arg w)) =
          Some (st\<lparr>stCS := cs\<rparr>)"
proof (cases "szFmt = None \<or> szFile = None \<or> szFunc = None \<or> bUsed st = FALSE")
  case True
  then have "fst (snd (log_debug sp (Some st) lvl szFile nLine szFunc szFmt arg w)) =
      Some (st\<lparr>stCS := stCS st\<rparr>)"
    by (auto simp add: log_debug_def)
  then show ?thesis ..
next
  case False
  then obtain fmt fl fn where "szFmt = Some fmt" "szFile = Some fl" "szFunc = Some fn"
    and "bUsed st \<noteq> FALSE" by auto
  then show ?thesis
    using log_debug_outcome [of st sp lvl _ nLine _ fmt arg w]
    by (auto simp add: log_lock_def log_unlock_def)
qed

lemma after_calls_keeps_fields:
  "\<exists>cs. after_calls sp calls (Some (st\<lparr>stCS := c\<rparr>)) = Some (st\<lparr>stCS := cs\<rparr>)"
proof (induction calls arbitrary: c)
  case Nil
  show ?case by auto
next
  case (Cons x calls)
  show ?case
  proof (cases x)
    case (Write lvl szFmt arg w)
    obtain cs where "fst (snd (log_write (Some (st\<lparr>stCS := c\<rparr>)) lvl szFmt arg w)) =
        Some (st\<lparr>stCS := cs\<rparr>)"
      using write_keeps_fields [of "st\<lparr>stCS := c\<rparr>" lvl szFmt arg w] by auto
    then show ?thesis using Write Cons.IH [of cs] by simp
  next
    case (Debug lvl szFile nLine szFunc szFmt arg w)
    obtain cs where "fst (snd (log_debug sp (Some (st\<lparr>stCS := c\<rparr>)) lvl szFile nLine szFunc
        szFmt arg w)) = Some (st\<lparr>stCS := cs\<rparr>)"
      using debug_keeps_fields [of sp "st\<lparr>stCS := c\<rparr>" lvl szFile nLine szFunc szFmt arg w]
      by auto
    then show ?thesis using Debug Cons.IH [of cs] by simp
  qed
qed

lemma snprintf_path: "snprintf b sizeof_path s = take MAX_PATH s"
  by (simp add: snprintf_def sizeof_path_def)

lemma log_start_value:
  assumes "sp path = (drive, dir, fname, ext)"
  shows "log_start sp (Some st0) (Some path) =
     (0, Some \<lparr>stCS = CS_Ready 0,
               szLogPath = take MAX_PATH (take MAX_PATH (drive @ dir) @ take MAX_PATH fname @
                             ''_0'' @ take MAX_PATH ext),
               bUsed = TRUE, nFileSize = MAX_FILE_SIZE, nLogBackup = MAX_LOG_BACKUP,
               szDir = take MAX_PATH (drive @ dir), szFname = take MAX_PATH fname,
               szFext = take MAX_PATH ext\<rparr>)"
proof -
  have fmt0: "fmt_d 0 = ''0''" by (simp add: fmt_d_def dec.simps)
  have name: "get_backupname (Some st) 0 (Some b) (int sizeof_path) =
      (0, Some (take MAX_PATH (szDir st @ szFname st @ ''_0'' @ szFext st)))"
    if "nLogBackup st = MAX_LOG_BACKUP" for st b
    using that get_backupname_in_range [of 0 st b] by (simp add: fmt0 MAX_LOG_BACKUP_def)
  show ?thesis
    using assms
    by (simp add: log_start_def copy_filepath_def Let_def log_lock_init_def
        InitializeCriticalSection_def snprintf_path name local_buf_def del: take_append)
qed

text \<open>
  The cascade on the sample file system.
\<close>

lemma measured_rotating: "measured_units app_info (calm rotating_files) = Some 1024"
  by (simp add: measured_units_def app_info_def calm_def rotating_files_def full_log_def
      LONG_MAX_def)

lemma backupName_app:
  "backupName app_info 0 = ''C:/logs/app_0.log''" "backupName app_info 1 = ''C:/logs/app_1.log''"
  "backupName app_info 2 = ''C:/logs/app_2.log''" "backupName app_info 3 = ''C:/logs/app_3.log''"
  by (simp_all add: backupName_def get_backupname_def local_buf_def snprintf_def size_t_path
      MAX_PATH_def app_info_def fmt_d_def dec.simps)

lemma cascade_three:
  "nLogBackup st = 3 \<Longrightarrow>
     rotation_cascade st w =
       shift_backup st 0 (shift_backup st 1 (shift_backup st 2 (delete_oldest st w)))"
  by (simp add: rotation_cascade_def upto.simps)

lemma cascade_calm:
  "files (rotation_cascade app_info (calm rotating_files)) =
     [''C:/logs/app_1.log'' \<mapsto> RegularFile full_log, ''C:/logs/app_2.log'' \<mapsto> RegularFile ''one'']"
proof -
  have n: "nLogBackup app_info = 3" by (simp add: app_info_def)
  show ?thesis
    unfolding cascade_three [OF n]
    by (simp add: shift_backup_def delete_oldest_def backupName_app regular_file_at_def n
        DeleteFile_def MoveFile_def calm_def rotating_files_def fun_eq_iff)
qed

section \<open>Level names\<close>

text \<open>
  C9. The level-name mapping is total: the levels 1, 2, 3 and 4 render as ERR, WAR, INF
  and DBG, and every other numeric level renders as the literal ??? instead of failing.
\<close>

theorem log_level_total:
  "log_level 1 = ''ERR'' \<and> log_level 2 = ''WAR'' \<and> log_level 3 = ''INF'' \<and>
   log_level 4 = ''DBG'' \<and>
   (\<forall>enLevel. enLevel \<notin> {1, 2, 3, 4} \<longrightarrow> log_level enLevel = ''???'')"
  by (simp add: log_level_def ERR_def WAR_def INF_level_def DBG_def)

theorem log_level_total_witness:
  "(7 :: int) \<notin> {1, 2, 3, 4} \<and> log_level 7 = ''???'' \<and> log_level 3 = ''INF''"
  using log_level_total by simp

section \<open>Writes that are refused\<close>

text \<open>
  C5. For every channel that is inactive (never started, or stopped) and for every null
  message, both kinds of write fail with the error result \<open>-1\<close> and change nothing: the
  channel and the whole platform state, the file system included, are returned as they
  were, so no file is created, opened, renamed or deleted before the checks pass.
\<close>

theorem write_rejected_without_effect:
  assumes "szFmt = None \<or> map_option bUsed pstLog = Some FALSE"
  shows "log_write pstLog enLevel szFmt arg w = (- 1, pstLog, w) \<and>
         log_debug sp pstLog enLevel szFile nLine szFunc szFmt arg w = (- 1, pstLog, w)"
  using assms by (auto simp add: log_write_def log_debug_def)

theorem write_rejected_without_effect_witness:
  "log_write (Some stopped_info) INF_level (Some ''hello'') no_args (calm rotating_files) =
     (- 1, Some stopped_info, calm rotating_files) \<and>
   log_write (Some zeroed) INF_level (Some ''hello'') no_args (calm rotating_files) =
     (- 1, Some zeroed, calm rotating_files) \<and>
   log_debug sample_splitpath (Some app_info) ERR (Some ''main.c'') 10 (Some ''main'') None
       no_args (calm rotating_files) =
     (- 1, Some app_info, calm rotating_files)"
  using write_rejected_without_effect [of "Some ''hello''" "Some stopped_info" INF_level no_args
      "calm rotating_files" sample_splitpath "Some ''main.c''" 10 "Some ''main''"]
    write_rejected_without_effect [of "Some ''hello''" "Some zeroed" INF_level no_args
      "calm rotating_files" sample_splitpath "Some ''main.c''" 10 "Some ''main''"]
    write_rejected_without_effect [of None "Some app_info" ERR no_args
      "calm rotating_files" sample_splitpath "Some ''main.c''" 10 "Some ''main''"]
  by (simp add: stopped_info_def zeroed_def FALSE_def)

section \<open>The lock around a write\<close>

text \<open>
  After a write on an active channel the lock has been left exactly when the live file
  could be opened: both functions return from the failed \<open>fopen\<close> without calling
  \<open>log_unlock\<close>, while the return after a failed \<open>fclose\<close> calls it.
\<close>

lemma lock_after_write:
  assumes "bUsed st \<noteq> FALSE" and "stCS st = CS_Ready n"
  shows "map_option stCS (fst (snd (log_write (Some st) lvl (Some fmt) arg w))) =
           Some (CS_Ready (if append_open_fails st w then Suc n else n)) \<and>
         map_option stCS
           (fst (snd (log_debug sp (Some st) lvl (Some szFile) nLine (Some szFunc) (Some fmt) arg w))) =
           Some (CS_Ready (if append_open_fails st w then Suc n else n))"
  using assms log_write_outcome [of st lvl fmt arg w]
    log_debug_outcome [of st sp lvl szFile nLine szFunc fmt arg w]
  by (simp add: log_lock_def log_unlock_def)

text \<open>
  C1. Every call of a write on a started channel releases the channel lock before it
  returns, on every exit path. The code does not: at the input below the channel was
  started on \<open>C:/logs/app.log\<close>, a directory has the name of the live file, so \<open>fopen\<close>
  fails, and both \<open>log_write\<close> and \<open>log_debug\<close> return \<open>-1\<close> with the lock entered once and
  never left.
\<close>

theorem write_open_failure_leaves_lock_held:
  "log_start sample_splitpath (Some zeroed) (Some ''C:/logs/app.log'') = (0, Some app_info) \<and>
   \<not> lock_held (stCS app_info) \<and>
   log_write (Some app_info) INF_level (Some ''hello'') no_args (calm blocked_files) =
     (- 1, Some (app_info\<lparr>stCS := CS_Ready 1\<rparr>), calm blocked_files) \<and>
   log_debug sample_splitpath (Some app_info) INF_level (Some ''main.c'') 10 (Some ''main'')
       (Some ''hello'') no_args (calm blocked_files) =
     (- 1, Some (app_info\<lparr>stCS := CS_Ready 1\<rparr>), calm blocked_files) \<and>
   lock_held (stCS (app_info\<lparr>stCS := CS_Ready 1\<rparr>))"
proof -
  have "log_write (Some app_info) INF_level (Some ''hello'') no_args (calm blocked_files) =
     (- 1, Some (app_info\<lparr>stCS := CS_Ready 1\<rparr>), calm blocked_files)"
    by (simp add: log_write_def Let_def backup_file_def get_filesize_def fopen_def calm_def
        blocked_files_def log_lock_def app_info_def FALSE_def)
  moreover have "log_debug sample_splitpath (Some app_info) INF_level (Some ''main.c'') 10
       (Some ''main'') (Some ''hello'') no_args (calm blocked_files) =
     (- 1, Some (app_info\<lparr>stCS := CS_Ready 1\<rparr>), calm blocked_files)"
    by (simp add: log_debug_def Let_def backup_file_def get_filesize_def fopen_def calm_def
        blocked_files_def log_lock_def app_info_def FALSE_def)
  moreover have "\<not> lock_held (stCS app_info)" by (simp add: app_info_def)
  ultimately show ?thesis by (simp add: log_start_app)
qed

section \<open>Stopping a channel\<close>

text \<open>
  C6, as the code has it. \<open>log_end\<close> fails, with \<open>-1\<close>, only for a null channel. For every
  channel that is not null, active or already inactive, it destroys the lock, marks the
  channel inactive and returns success; there is no failure for a channel that is not
  started.
\<close>

theorem log_end_result:
  "log_end None = (- 1, None) \<and>
   log_end (Some st) = (0, Some (st\<lparr>stCS := CS_Deleted, bUsed := FALSE\<rparr>))"
  by (simp add: log_end_def log_lock_delete_def DeleteCriticalSection_def Let_def)

text \<open>
  The claim as first stated fails: stopping the stopped channel, or the zero-filled one
  that was never started, returns 0.
\<close>

theorem stop_of_inactive_channel_succeeds:
  "log_end (Some app_info) = (0, Some stopped_info) \<and> bUsed stopped_info = FALSE \<and>
   log_end (Some stopped_info) = (0, Some stopped_info) \<and>
   bUsed zeroed = FALSE \<and> fst (log_end (Some zeroed)) = 0"
  by (simp add: log_end_def log_lock_delete_def DeleteCriticalSection_def Let_def
      stopped_info_def app_info_def zeroed_def FALSE_def)

section \<open>Starting a channel\<close>

text \<open>
  C7, as the code has it. \<open>log_start\<close> fails, with \<open>-1\<close> and the channel untouched, exactly
  when the channel or the path is null. For every path that is not null, the empty one
  included, it clears the decomposition fields, stores the decomposition (directory with
  drive, stem, extension, each cut to \<open>MAX_PATH\<close> characters), derives the live path as
  the backup name of index 0, initialises the lock, marks the channel active, sets the
  threshold and the backup count, and returns success.
\<close>

theorem log_start_result:
  "log_start sp None szPath = (- 1, None) \<and>
   log_start sp pstLog None = (- 1, pstLog) \<and>
   (sp path = (drive, dir, fname, ext) \<longrightarrow>
      (\<exists>st'. log_start sp (Some st) (Some path) = (0, Some st') \<and>
         szDir st' = take MAX_PATH (drive @ dir) \<and>
         szFname st' = take MAX_PATH fname \<and>
         szFext st' = take MAX_PATH ext \<and>
         szLogPath st' = backupName st' 0 \<and>
         stCS st' = CS_Ready 0 \<and> bUsed st' = TRUE \<and>
         nFileSize st' = MAX_FILE_SIZE \<and> nLogBackup st' = MAX_LOG_BACKUP))"
proof -
  have fmt0: "fmt_d 0 = ''0''" by (simp add: fmt_d_def dec.simps)
  have name: "backupName s 0 = take MAX_PATH (szDir s @ szFname s @ ''_0'' @ szFext s)"
    if "nLogBackup s = MAX_LOG_BACKUP" for s
    using that get_backupname_in_range [of 0 s "[]"]
    by (simp add: backupName_def local_buf_def fmt0 MAX_LOG_BACKUP_def)
  have "log_start sp None szPath = (- 1, None)" and "log_start sp pstLog None = (- 1, pstLog)"
    by (simp_all add: log_start_def)
  moreover have "\<exists>st'. log_start sp (Some st) (Some path) = (0, Some st') \<and>
         szDir st' = take MAX_PATH (drive @ dir) \<and>
         szFname st' = take MAX_PATH fname \<and>
         szFext st' = take MAX_PATH ext \<and>
         szLogPath st' = backupName st' 0 \<and>
         stCS st' = CS_Ready 0 \<and> bUsed st' = TRUE \<and>
         nFileSize st' = MAX_FILE_SIZE \<and> nLogBackup st' = MAX_LOG_BACKUP"
    if "sp path = (drive, dir, fname, ext)"
    using that log_start_value [of sp path drive dir fname ext st]
    by (simp add: name del: take_append)
  ultimately show ?thesis by blast
qed

theorem log_start_result_witness:
  "sample_splitpath ''C:/logs/app.log'' = (''C:'', ''/logs/'', ''app'', ''.log'') \<and>
   log_start sample_splitpath (Some zeroed) (Some ''C:/logs/app.log'') = (0, Some app_info) \<and>
   szLogPath app_info = backupName app_info 0 \<and>
   szDir app_info = ''C:/logs/'' \<and> szFname app_info = ''app'' \<and> szFext app_info = ''.log'' \<and>
   log_start sample_splitpath (Some zeroed) None = (- 1, Some zeroed)"
  using log_start_result [of sample_splitpath None "Some zeroed" "''C:/logs/app.log''"
      "''C:''" "''/logs/''" "''app''" "''.log''" zeroed]
  by (auto simp add: log_start_app sample_splitpath_def app_info_def)

text \<open>
  The claim as first stated fails for the empty path, which is accepted: the channel is
  started with empty decomposition fields and the live path \<open>_0\<close>.
\<close>

theorem start_accepts_empty_path:
  "log_start sample_splitpath (Some zeroed) (Some []) =
     (0, Some \<lparr>stCS = CS_Ready 0, szLogPath = ''_0'', bUsed = 1, nFileSize = 1024,
               nLogBackup = 3, szDir = [], szFname = [], szFext = []\<rparr>)"
proof -
  have "sample_splitpath [] = ([], [], [], [])"
    by (simp add: sample_splitpath_def long_path_def)
  with log_start_value [of sample_splitpath "[]" "[]" "[]" "[]" "[]" zeroed] show ?thesis
    by (simp add: MAX_PATH_def TRUE_def MAX_FILE_SIZE_def MAX_LOG_BACKUP_def)
qed

section \<open>The live path\<close>

text \<open>
  C4, as the code has it. For every path accepted by \<open>log_start\<close>, the live path of the
  channel is what the namer yields for index 0 over the decomposition stored at start:
  the first \<open>MAX_PATH\<close> (260) characters of directory, stem, \<open>_0\<close> and extension, which
  is all of it whenever that has at most 260 characters. The decomposition fields and the
  live path are set at start and no sequence of later writes changes them: after any
  calls of \<open>log_write\<close> and \<open>log_debug\<close> the channel differs from the started one in its
  lock at most.
\<close>

theorem live_path_is_generation_zero:
  assumes "sp path = (drive, dir, fname, ext)"
    and "log_start sp (Some st0) (Some path) = (r, Some st)"
  shows "szDir st = take MAX_PATH (drive @ dir) \<and> szFname st = take MAX_PATH fname \<and>
         szFext st = take MAX_PATH ext \<and>
         get_backupname (Some st) 0 (Some b) (int sizeof_path) = (0, Some (szLogPath st)) \<and>
         szLogPath st = take MAX_PATH (szDir st @ szFname st @ ''_0'' @ szFext st) \<and>
         (length (szDir st @ szFname st @ ''_0'' @ szFext st) \<le> MAX_PATH \<longrightarrow>
            szLogPath st = szDir st @ szFname st @ ''_0'' @ szFext st) \<and>
         (\<exists>cs. after_calls sp' calls (Some st) = Some (st\<lparr>stCS := cs\<rparr>))"
proof -
  have fmt0: "fmt_d 0 = ''0''" by (simp add: fmt_d_def dec.simps)
  have st: "st = \<lparr>stCS = CS_Ready 0,
               szLogPath = take MAX_PATH (take MAX_PATH (drive @ dir) @ take MAX_PATH fname @
                             ''_0'' @ take MAX_PATH ext),
               bUsed = TRUE, nFileSize = MAX_FILE_SIZE, nLogBackup = MAX_LOG_BACKUP,
               szDir = take MAX_PATH (drive @ dir), szFname = take MAX_PATH fname,
               szFext = take MAX_PATH ext\<rparr>"
    using assms log_start_value [of sp path drive dir fname ext st0] by simp
  have fields: "szDir st = take MAX_PATH (drive @ dir)" "szFname st = take MAX_PATH fname"
    "szFext st = take MAX_PATH ext" "nLogBackup st = MAX_LOG_BACKUP"
    "szLogPath st = take MAX_PATH (szDir st @ szFname st @ ''_0'' @ szFext st)"
    by (simp_all add: st del: take_append)
  have name: "get_backupname (Some st) 0 (Some b) (int sizeof_path) = (0, Some (szLogPath st))"
    using get_backupname_in_range [of 0 st b] fields(4,5)
    by (simp add: fmt0 MAX_LOG_BACKUP_def)
  have fits: "szLogPath st = szDir st @ szFname st @ ''_0'' @ szFext st"
    if "length (szDir st @ szFname st @ ''_0'' @ szFext st) \<le> MAX_PATH"
    using that fields(5) by simp
  have "\<exists>cs. after_calls sp' calls (Some st) = Some (st\<lparr>stCS := cs\<rparr>)"
    using after_calls_keeps_fields [where st = st and c = "stCS st" and sp = sp' and calls = calls]
    by simp
  with fields(1-3,5) name fits show ?thesis by blast
qed

theorem live_path_is_generation_zero_witness:
  "sample_splitpath ''C:/logs/app.log'' = (''C:'', ''/logs/'', ''app'', ''.log'') \<and>
   log_start sample_splitpath (Some zeroed) (Some ''C:/logs/app.log'') = (0, Some app_info) \<and>
   length (szDir app_info @ szFname app_info @ ''_0'' @ szFext app_info) \<le> MAX_PATH \<and>
   szLogPath app_info = ''C:/logs/'' @ ''app'' @ ''_0'' @ ''.log'' \<and>
   get_backupname (Some app_info) 0 (Some ''old'') (int sizeof_path) =
     (0, Some ''C:/logs/app_0.log'') \<and>
   (\<exists>cs. after_calls sample_splitpath
      [Write INF_level (Some ''hello'') no_args (calm rotating_files),
       Debug ERR (Some ''main.c'') 10 (Some ''main'') (Some ''bye'') no_args (calm blocked_files)]
      (Some app_info) = Some (app_info\<lparr>stCS := cs\<rparr>))"
  using live_path_is_generation_zero [of sample_splitpath "''C:/logs/app.log''"
      "''C:''" "''/logs/''" "''app''" "''.log''" zeroed 0 app_info "''old''" sample_splitpath
      "[Write INF_level (Some ''hello'') no_args (calm rotating_files),
        Debug ERR (Some ''main.c'') 10 (Some ''main'') (Some ''bye'') no_args (calm blocked_files)]"]
  by (simp add: log_start_app sample_splitpath_def)
    (simp add: app_info_def MAX_PATH_def)

text \<open>
  The claim as first stated fails for a long path. The path below has 259 characters;
  directory, stem, \<open>_0\<close> and extension make 261, and the live path stored is the first
  260 of them, ending in \<open>_0.lo\<close>.
\<close>

theorem long_live_path_is_cut:
  "length long_path = 259 \<and>
   sample_splitpath long_path = (''C:'', ''/'', replicate 252 CHR ''a'', ''.log'') \<and>
   log_start sample_splitpath (Some zeroed) (Some long_path) = (0, Some long_info) \<and>
   szLogPath long_info = ''C:/'' @ replicate 252 CHR ''a'' @ ''_0.lo'' \<and>
   szDir long_info @ szFname long_info @ ''_0'' @ szFext long_info =
     ''C:/'' @ replicate 252 CHR ''a'' @ ''_0.log'' \<and>
   szLogPath long_info \<noteq> szDir long_info @ szFname long_info @ ''_0'' @ szFext long_info"
  by (simp add: splitpath_long log_start_long) (simp add: long_info_def long_path_def)

section \<open>Backup names\<close>

text \<open>
  C8, as the code has it. For every index from 0 to the backup count, the namer called as
  the header calls it (with a buffer of \<open>MAX_PATH + 1\<close> bytes) returns 0 and writes the
  first \<open>MAX_PATH\<close> (260) characters of directory, stem, \<open>_\<close>, the index in decimal and
  the extension: exactly that name whenever it has at most 260 characters. For every
  negative index and every index above the backup count it returns \<open>-1\<close> and leaves the
  buffer as it was, whatever the buffer and its size.
\<close>

theorem get_backupname_result:
  "(0 \<le> i \<and> i \<le> nLogBackup st \<longrightarrow>
      get_backupname (Some st) i (Some b) (int sizeof_path) =
        (0, Some (take MAX_PATH (szDir st @ szFname st @ ''_'' @ fmt_d i @ szFext st)))) \<and>
   (0 \<le> i \<and> i \<le> nLogBackup st \<and>
    length (szDir st @ szFname st @ ''_'' @ fmt_d i @ szFext st) \<le> MAX_PATH \<longrightarrow>
      get_backupname (Some st) i (Some b) (int sizeof_path) =
        (0, Some (szDir st @ szFname st @ ''_'' @ fmt_d i @ szFext st))) \<and>
   (i < 0 \<or> nLogBackup st < i \<longrightarrow> get_backupname (Some st) i szBuff nSize = (- 1, szBuff))"
  using get_backupname_in_range [of i st b] get_backupname_out_of_range [of i st szBuff nSize]
  by (simp del: take_append)

theorem get_backupname_result_witness:
  "(0 :: int) \<le> 2 \<and> 2 \<le> nLogBackup app_info \<and>
   length (szDir app_info @ szFname app_info @ ''_'' @ fmt_d 2 @ szFext app_info) \<le> MAX_PATH \<and>
   get_backupname (Some app_info) 2 (Some ''old'') (int sizeof_path) =
     (0, Some ''C:/logs/app_2.log'') \<and>
   nLogBackup app_info < 4 \<and>
   get_backupname (Some app_info) 4 (Some ''old'') (int sizeof_path) = (- 1, Some ''old'') \<and>
   get_backupname (Some app_info) (- 1) (Some ''old'') (int sizeof_path) = (- 1, Some ''old'')"
  using get_backupname_result [of 2 app_info "''old''" "Some ''old''" "int sizeof_path"]
    get_backupname_result [of 4 app_info "''old''" "Some ''old''" "int sizeof_path"]
    get_backupname_result [of "- 1" app_info "''old''" "Some ''old''" "int sizeof_path"]
  by (simp add: app_info_def fmt_d_def dec.simps MAX_PATH_def)

text \<open>
  The claim as first stated fails when the name does not fit: for the channel started on
  the path of 259 characters, the name of index 1 has 261 characters and loses its last.
\<close>

theorem long_backup_name_is_cut:
  "(0 :: int) \<le> 1 \<and> 1 \<le> nLogBackup long_info \<and>
   szDir long_info @ szFname long_info @ ''_'' @ fmt_d 1 @ szFext long_info =
     ''C:/'' @ replicate 252 CHR ''a'' @ ''_1.log'' \<and>
   get_backupname (Some long_info) 1 (Some []) (int sizeof_path) =
     (0, Some (''C:/'' @ replicate 252 CHR ''a'' @ ''_1.lo'')) \<and>
   get_backupname (Some long_info) 1 (Some []) (int sizeof_path) \<noteq>
     (0, Some (szDir long_info @ szFname long_info @ ''_'' @ fmt_d 1 @ szFext long_info))"
  by (simp add: get_backupname_def snprintf_def size_t_path MAX_PATH_def long_info_def fmt_d_def
      dec.simps)

section \<open>The rotation check\<close>

text \<open>
  C3, as the code has it. The rotation check obtains the size of the live file in units
  of 1024 bytes, rounded down, when the file opens for reading, its length fits a
  \<open>long\<close>, and the handle closes without error. It performs the rotation cascade if
  and only if a size was obtained and that size is at least the threshold. When the live
  file cannot be opened (in particular, when it does not exist), and likewise when no size
  is obtained for one of the other reasons, the check returns 0 and changes nothing.
\<close>

theorem rotation_check_result:
  assumes "0 \<le> nLogBackup st"
  shows "fst (get_filesize (Some (szLogPath st)) w) =
           (case measured_units st w of None \<Rightarrow> - 1 | Some u \<Rightarrow> u) \<and>
         backup_file (Some st) w =
           (0, case measured_units st w of
                 None \<Rightarrow> w
               | Some u \<Rightarrow> if nFileSize st \<le> u then rotation_cascade st w else w) \<and>
         (fst (fopen (szLogPath st) ''rb'' w) = None \<longrightarrow>
            measured_units st w = None \<and> backup_file (Some st) w = (0, w))"
proof -
  have "measured_units st w = None" if "fst (fopen (szLogPath st) ''rb'' w) = None"
    using that
    by (auto simp add: measured_units_def fopen_def split: option.splits node.splits if_splits)
  then show ?thesis
    using backup_file_cascade [OF assms, of w] get_filesize_measured [of st w]
    by (auto split: option.splits)
qed

theorem rotation_check_result_witness:
  "0 \<le> nLogBackup app_info \<and>
   measured_units app_info (calm rotating_files) = Some 1024 \<and>
   nFileSize app_info \<le> 1024 \<and>
   backup_file (Some app_info) (calm rotating_files) =
     (0, rotation_cascade app_info (calm rotating_files)) \<and>
   measured_units app_info (calm [''C:/logs/app_0.log'' \<mapsto> RegularFile (replicate 2047 CHR ''x'')]) =
     Some 1 \<and>
   backup_file (Some app_info)
       (calm [''C:/logs/app_0.log'' \<mapsto> RegularFile (replicate 2047 CHR ''x'')]) =
     (0, calm [''C:/logs/app_0.log'' \<mapsto> RegularFile (replicate 2047 CHR ''x'')]) \<and>
   fst (fopen (szLogPath app_info) ''rb'' (calm Map.empty)) = None \<and>
   backup_file (Some app_info) (calm Map.empty) = (0, calm Map.empty)"
proof -
  have n: "0 \<le> nLogBackup app_info" "nFileSize app_info \<le> 1024" "\<not> nFileSize app_info \<le> 1"
    by (simp_all add: app_info_def)
  have small: "measured_units app_info
      (calm [''C:/logs/app_0.log'' \<mapsto> RegularFile (replicate 2047 CHR ''x'')]) = Some 1"
    by (simp add: measured_units_def app_info_def calm_def LONG_MAX_def)
  have missing: "fst (fopen (szLogPath app_info) ''rb'' (calm Map.empty)) = None"
    by (simp add: fopen_def calm_def)
  show ?thesis
    using rotation_check_result [OF n(1), of "calm rotating_files"]
      rotation_check_result [OF n(1),
        of "calm [''C:/logs/app_0.log'' \<mapsto> RegularFile (replicate 2047 CHR ''x'')]"]
      rotation_check_result [OF n(1), of "calm Map.empty"] n missing
    by (simp add: measured_rotating small)
qed

text \<open>
  The claim as first stated fails when closing the handle used for the measurement
  fails: the live file opens, holds 1024 units, the threshold is 1024, and the check
  returns without the cascade, which would have moved the live file away.
\<close>

theorem rotation_skipped_when_probe_close_fails:
  "files probe_close_fails ''C:/logs/app_0.log'' = Some (RegularFile full_log) \<and>
   fst (fopen (szLogPath app_info) ''rb'' probe_close_fails) \<noteq> None \<and>
   drop_bit 10 (int (length full_log)) = 1024 \<and> nFileSize app_info = 1024 \<and>
   backup_file (Some app_info) probe_close_fails = (0, probe_close_fails) \<and>
   files (rotation_cascade app_info probe_close_fails) ''C:/logs/app_0.log'' = None \<and>
   rotation_cascade app_info probe_close_fails \<noteq> probe_close_fails"
proof -
  have n: "nLogBackup app_info = 3" by (simp add: app_info_def)
  have live: "files probe_close_fails ''C:/logs/app_0.log'' = Some (RegularFile full_log)"
    by (simp add: probe_close_fails_def calm_def rotating_files_def)
  have opens: "fst (fopen (szLogPath app_info) ''rb'' probe_close_fails) \<noteq> None"
    by (simp add: fopen_def probe_close_fails_def calm_def rotating_files_def app_info_def)
  have check: "backup_file (Some app_info) probe_close_fails = (0, probe_close_fails)"
    by (simp add: backup_file_def get_filesize_def fopen_def fclose_def filelength_def
        probe_close_fails_def calm_def rotating_files_def app_info_def EOF_def Let_def)
  have moved: "files (rotation_cascade app_info probe_close_fails) ''C:/logs/app_0.log'' = None"
    unfolding cascade_three [OF n]
    by (simp add: shift_backup_def delete_oldest_def backupName_app regular_file_at_def n
        DeleteFile_def MoveFile_def probe_close_fails_def calm_def rotating_files_def)
  have "rotation_cascade app_info probe_close_fails \<noteq> probe_close_fails"
    using live moved by auto
  with live opens check moved show ?thesis
    by (simp add: full_log_def app_info_def)
qed

section \<open>The rotation cascade\<close>

text \<open>
  C2. Whenever rotation fires (a size was obtained and is at least the threshold), the
  check does what the specification says: it deletes the file named for the index
  \<open>backupCount\<close> if a regular file, not a directory, is there; then for each index from
  \<open>backupCount - 1\<close> down to 0 it renames the file named for that index to the name for
  the next index when a regular file is there, skipping directories. The check returns 0
  in any case, and the result of the enclosing write is the same whether the delete and
  rename steps fail or not.
\<close>

theorem rotation_cascade_performed:
  assumes "0 \<le> nLogBackup st"
    and "get_filesize (Some (szLogPath st)) w = (fsize, w')"
    and "0 \<le> fsize" and "nFileSize st \<le> fsize"
  shows "backup_file (Some st) w = (0, rotation_cascade st w) \<and>
         (nLogBackup st = 3 \<longrightarrow>
            rotation_cascade st w =
              shift_backup st 0 (shift_backup st 1 (shift_backup st 2 (delete_oldest st w)))) \<and>
         (bUsed st \<noteq> FALSE \<longrightarrow>
            fst (log_write (Some st) lvl (Some fmt) arg
                   (w\<lparr>DeleteFile_fails := d, MoveFile_fails := m\<rparr>)) =
              fst (log_write (Some st) lvl (Some fmt) arg w) \<and>
            fst (log_debug sp (Some st) lvl (Some szFile) nLine (Some szFunc) (Some fmt) arg
                   (w\<lparr>DeleteFile_fails := d, MoveFile_fails := m\<rparr>)) =
              fst (log_debug sp (Some st) lvl (Some szFile) nLine (Some szFunc) (Some fmt) arg w))"
proof -
  have "measured_units st w = Some fsize"
    using assms(2,3) get_filesize_measured [of st w]
    by (cases "measured_units st w") auto
  then have check: "backup_file (Some st) w = (0, rotation_cascade st w)"
    using assms(1,4) by (simp add: backup_file_cascade)
  have same: "append_open_fails st (w\<lparr>DeleteFile_fails := d, MoveFile_fails := m\<rparr>) =
        append_open_fails st w"
      "append_close_fails st (w\<lparr>DeleteFile_fails := d, MoveFile_fails := m\<rparr>) =
        append_close_fails st w"
    by (simp_all add: append_open_fails_def append_close_fails_def)
  have writes: "fst (log_write (Some st) lvl (Some fmt) arg
                   (w\<lparr>DeleteFile_fails := d, MoveFile_fails := m\<rparr>)) =
              fst (log_write (Some st) lvl (Some fmt) arg w) \<and>
            fst (log_debug sp (Some st) lvl (Some szFile) nLine (Some szFunc) (Some fmt) arg
                   (w\<lparr>DeleteFile_fails := d, MoveFile_fails := m\<rparr>)) =
              fst (log_debug sp (Some st) lvl (Some szFile) nLine (Some szFunc) (Some fmt) arg w)"
    if "bUsed st \<noteq> FALSE"
    using log_write_outcome [OF that] log_debug_outcome [OF that] by (simp add: same)
  from check writes show ?thesis by (simp add: cascade_three)
qed

theorem rotation_cascade_performed_witness:
  "0 \<le> nLogBackup app_info \<and>
   get_filesize (Some (szLogPath app_info)) (calm rotating_files) = (1024, calm rotating_files) \<and>
   nFileSize app_info \<le> 1024 \<and>
   backup_file (Some app_info) (calm rotating_files) =
     (0, rotation_cascade app_info (calm rotating_files)) \<and>
   files (rotation_cascade app_info (calm rotating_files)) =
     [''C:/logs/app_1.log'' \<mapsto> RegularFile full_log, ''C:/logs/app_2.log'' \<mapsto> RegularFile ''one''] \<and>
   get_filesize (Some (szLogPath app_info)) (calm cluttered_files) = (1024, calm cluttered_files) \<and>
   backup_file (Some app_info) (calm cluttered_files) = (0, calm cluttered_files) \<and>
   bUsed app_info \<noteq> FALSE \<and>
   fst (log_write (Some app_info) INF_level (Some ''hello'') no_args stuck_rotation) = 0"
proof -
  have n3: "nLogBackup app_info = 3" by (simp add: app_info_def)
  have measured: "measured_units app_info (calm cluttered_files) = Some 1024"
    by (simp add: measured_units_def app_info_def calm_def cluttered_files_def full_log_def
        LONG_MAX_def)
  have size': "get_filesize (Some (szLogPath app_info)) (calm cluttered_files) =
      (1024, calm cluttered_files)"
    by (simp add: get_filesize_measured measured)
  have skipped: "rotation_cascade app_info (calm cluttered_files) = calm cluttered_files"
    unfolding cascade_three [OF n3]
    by (simp add: shift_backup_def delete_oldest_def backupName_app regular_file_at_def n3
        DeleteFile_def MoveFile_def calm_def cluttered_files_def)
  have size: "get_filesize (Some (szLogPath app_info)) (calm rotating_files) =
      (1024, calm rotating_files)"
    by (simp add: get_filesize_measured measured_rotating)
  have n: "0 \<le> nLogBackup app_info" "nFileSize app_info \<le> 1024" "bUsed app_info \<noteq> FALSE"
    by (simp_all add: app_info_def FALSE_def)
  have calm_write: "fst (log_write (Some app_info) INF_level (Some ''hello'') no_args
      (calm rotating_files)) = 0"
    using log_write_outcome [OF n(3), of INF_level "''hello''" no_args "calm rotating_files"]
    by (simp add: append_open_fails_def append_close_fails_def calm_def rotating_files_def
        app_info_def)
  show ?thesis
    using rotation_cascade_performed [OF n(1) size _ n(2), where lvl = INF_level
        and fmt = "''hello''" and arg = no_args and d = "\<lambda>path. True"
        and m = "\<lambda>existing new. True" and sp = sample_splitpath and szFile = "''main.c''"
        and nLine = 10 and szFunc = "''main''"]
      rotation_cascade_performed [OF n(1) size' _ n(2), where lvl = INF_level
        and fmt = "''hello''" and arg = no_args and d = "\<lambda>path. True"
        and m = "\<lambda>existing new. True" and sp = sample_splitpath and szFile = "''main.c''"
        and nLine = 10 and szFunc = "''main''"]
      n size size' calm_write
    by (simp add: cascade_calm skipped stuck_rotation_def)
qed

section \<open>What a write reports\<close>

text \<open>
  C10. For every started channel and format string that is not null, a write returns
  success whenever opening the live file and closing it both succeed, whatever the
  append does: the result of \<open>fputs\<close> is never inspected, so the result of the write is
  \<open>-1\<close> exactly when the open or the close fails, for every behaviour \<open>f\<close> of \<open>fputs\<close>.
\<close>

theorem append_result_not_inspected:
  assumes "bUsed st \<noteq> FALSE"
  shows "fst (log_write (Some st) lvl (Some fmt) arg (w\<lparr>fputs_fails := f\<rparr>)) =
           (if append_open_fails st w \<or> append_close_fails st w then - 1 else 0) \<and>
         fst (log_debug sp (Some st) lvl (Some szFile) nLine (Some szFunc) (Some fmt) arg
                (w\<lparr>fputs_fails := f\<rparr>)) =
           (if append_open_fails st w \<or> append_close_fails st w then - 1 else 0)"
proof -
  have "append_open_fails st (w\<lparr>fputs_fails := f\<rparr>) = append_open_fails st w"
    and "append_close_fails st (w\<lparr>fputs_fails := f\<rparr>) = append_close_fails st w"
    by (simp_all add: append_open_fails_def append_close_fails_def)
  then show ?thesis
    using log_write_outcome [OF assms, of lvl fmt arg "w\<lparr>fputs_fails := f\<rparr>"]
      log_debug_outcome [OF assms, of sp lvl szFile nLine szFunc fmt arg "w\<lparr>fputs_fails := f\<rparr>"]
    by simp
qed

theorem append_result_not_inspected_witness:
  "bUsed app_info \<noteq> FALSE \<and>
   \<not> append_open_fails app_info (calm Map.empty) \<and>
   \<not> append_close_fails app_info (calm Map.empty) \<and>
   files (snd (snd (log_write (Some app_info) INF_level (Some ''hello'') no_args
          ((calm Map.empty)\<lparr>fputs_fails := (\<lambda>fp. True)\<rparr>)))) ''C:/logs/app_0.log'' =
     Some (RegularFile []) \<and>
   fst (log_write (Some app_info) INF_level (Some ''hello'') no_args
          ((calm Map.empty)\<lparr>fputs_fails := (\<lambda>fp. True)\<rparr>)) = 0 \<and>
   fst (log_debug sample_splitpath (Some app_info) INF_level (Some ''main.c'') 10 (Some ''main'')
          (Some ''hello'') no_args ((calm Map.empty)\<lparr>fputs_fails := (\<lambda>fp. True)\<rparr>)) = 0 \<and>
   fst (log_write (Some app_info) INF_level (Some ''hello'') no_args
          ((calm blocked_files)\<lparr>fputs_fails := (\<lambda>fp. True)\<rparr>)) = - 1"
proof -
  have active: "bUsed app_info \<noteq> FALSE" by (simp add: app_info_def FALSE_def)
  have ok: "\<not> append_open_fails app_info (calm Map.empty)"
    "\<not> append_close_fails app_info (calm Map.empty)"
    "append_open_fails app_info (calm blocked_files)"
    by (simp_all add: append_open_fails_def append_close_fails_def calm_def app_info_def
        blocked_files_def)
  have eof: "files (snd (snd (log_write (Some app_info) INF_level (Some ''hello'') no_args
      ((calm Map.empty)\<lparr>fputs_fails := (\<lambda>fp. True)\<rparr>)))) ''C:/logs/app_0.log'' =
      Some (RegularFile [])"
    by (simp add: log_write_def Let_def backup_file_def get_filesize_def fopen_def fputs_def
        fclose_def calm_def log_lock_def app_info_def FALSE_def)
  show ?thesis
    using append_result_not_inspected [OF active, where lvl = INF_level and fmt = "''hello''"
        and arg = no_args and w = "calm Map.empty" and f = "\<lambda>fp. True"
        and sp = sample_splitpath and szFile = "''main.c''" and nLine = 10 and szFunc = "''main''"]
      append_result_not_inspected [OF active, where lvl = INF_level and fmt = "''hello''"
        and arg = no_args and w = "calm blocked_files" and f = "\<lambda>fp. True"
        and sp = sample_splitpath and szFile = "''main.c''" and nLine = 10 and szFunc = "''main''"]
      active ok eof
    by simp
qed

end
